theory Spec2Isabelle
  imports Complex_Main
begin

section \<open>Values, tables and Python results\<close>

text \<open>
  The script works on pandas tables. A table cell is a number, a text, a timestamp or the
  missing value (NaN / NaT / None). Numbers are exact rationals here: the rounding of
  64-bit floats and the wrap-around of 64-bit integers are outside this development.
  A timestamp is the number of nanoseconds since the epoch, as pandas stores it.
\<close>

datatype cell = Num rat | Txt string | Stamp int | Null

text \<open>
  The value of an indicator is what a pandas reduction and Python arithmetic on it give:
  a number, a text (the reduction of a text column concatenates), or the non-finite
  value (inf or nan) that numpy returns, with a warning and no exception, for a division
  by zero.
\<close>

datatype scalar = SNum rat | STxt string | NonFinite

datatype py_error =
    FileNotFoundError string
  | ValueError string
  | KeyError string
  | TypeError
  | IndexError
  | OSError

text \<open>
  A table has its column labels, in order, and its rows, in order. A row gives the cell
  under each label; only the labels listed in \<open>columns\<close> are ever read, every read of
  a column going through the presence test that makes pandas raise \<open>KeyError\<close>.
  The readers of pandas return tables whose labels are pairwise different (a repeated
  header is renamed \<open>a\<close>, \<open>a.1\<close>, ...).
\<close>

record frame =
  columns :: "string list"
  rows :: "(string \<Rightarrow> cell) list"

type_synonym metrics = "(string \<times> scalar) list"

subsection \<open>Strings\<close>

definition char_lower :: "char \<Rightarrow> char" where
  "char_lower c =
     (case map_of (zip ''ABCDEFGHIJKLMNOPQRSTUVWXYZ'' ''abcdefghijklmnopqrstuvwxyz'') c of
        Some l \<Rightarrow> l
      | None \<Rightarrow> c)"

text \<open>
  \<open>str.lower()\<close> on the letters A to Z. Python lowers every cased code point, but no
  code point outside A to Z lowers to a letter of the vocabulary below, so matching
  against the vocabulary is the same.
\<close>

definition str_lower :: "string \<Rightarrow> string" where
  "str_lower s = map char_lower s"

definition endswith :: "string \<Rightarrow> string \<Rightarrow> bool" where
  "endswith s suf \<longleftrightarrow> length suf \<le> length s \<and> drop (length s - length suf) s = suf"

text \<open>The labels that are not ASCII, as their UTF-8 bytes.\<close>

definition Receita_Total :: string where
  "Receita_Total = ''Receita Total''"

definition Custo_Operacional_Total :: string where
  "Custo_Operacional_Total = ''Custo Operacional Total''"

definition Produtividade_Media :: string where
  "Produtividade_Media = ''Produtividade M'' @ [CHR 0xC3, CHR 0xA9] @ ''dia''"

definition Lucro_Liquido :: string where
  "Lucro_Liquido = ''Lucro L'' @ [CHR 0xC3, CHR 0xAD] @ ''quido''"

definition Ticket_Medio :: string where
  "Ticket_Medio = ''Ticket M'' @ [CHR 0xC3, CHR 0xA9] @ ''dio''"

definition mes :: string where
  "mes = ''m'' @ [CHR 0xC3, CHR 0xAA] @ ''s''"

subsection \<open>The pandas operations the script uses\<close>

text \<open>\<open>df[name]\<close>: the column under a label, \<open>KeyError\<close> when the label is absent.\<close>

definition getitem :: "frame \<Rightarrow> string \<Rightarrow> py_error + cell list" where
  "getitem df name =
     (if name \<in> set (columns df) then Inr (map (\<lambda>r. r name) (rows df))
      else Inl (KeyError name))"

text \<open>
  \<open>df[name] = values\<close>: an existing column is overwritten where it stands, a new one
  is appended as the last column. A scalar on the right is one value per row.
\<close>

definition setitem :: "frame \<Rightarrow> string \<Rightarrow> cell list \<Rightarrow> frame" where
  "setitem df name vs =
     \<lparr>columns = (if name \<in> set (columns df) then columns df else columns df @ [name]),
      rows = map (\<lambda>(r, v). r(name := v)) (zip (rows df) vs)\<rparr>"

definition setitem_scalar :: "frame \<Rightarrow> string \<Rightarrow> cell \<Rightarrow> frame" where
  "setitem_scalar df name v = setitem df name (replicate (length (rows df)) v)"

definition is_numeric :: "cell \<Rightarrow> bool" where
  "is_numeric c = (case c of Num _ \<Rightarrow> True | Null \<Rightarrow> True | _ \<Rightarrow> False)"

definition is_text :: "cell \<Rightarrow> bool" where
  "is_text c = (case c of Txt _ \<Rightarrow> True | _ \<Rightarrow> False)"

definition num_of :: "cell \<Rightarrow> rat" where
  "num_of c = (case c of Num x \<Rightarrow> x | _ \<Rightarrow> 0)"

definition text_of :: "cell \<Rightarrow> string" where
  "text_of c = (case c of Txt s \<Rightarrow> s | _ \<Rightarrow> [])"

text \<open>
  \<open>Series.sum()\<close>, with its default \<open>skipna=True\<close>: over numbers and missing values
  the missing ones are skipped, so they count as 0, and the sum of no value is 0. A column
  of texts only is concatenated. Every other column (a timestamp, a text beside a number
  or a missing value) makes the reduction raise \<open>TypeError\<close>.
\<close>

definition series_sum :: "cell list \<Rightarrow> py_error + scalar" where
  "series_sum xs =
     (if list_all is_numeric xs then Inr (SNum (sum_list (map num_of xs)))
      else if list_all is_text xs then Inr (STxt (concat (map text_of xs)))
      else Inl TypeError)"

text \<open>\<open>Series.nunique()\<close>: the number of different values, the missing one not counted.\<close>

definition nunique :: "cell list \<Rightarrow> nat" where
  "nunique xs = length (remdups (filter (\<lambda>c. c \<noteq> Null) xs))"

text \<open>
  Python's \<open>-\<close> and \<open>/\<close> on the results of reductions. The operands are numpy
  scalars (or the count of \<open>nunique\<close>): a division by zero gives the non-finite value
  and raises nothing; a text operand raises \<open>TypeError\<close>.
\<close>

definition py_sub :: "scalar \<Rightarrow> scalar \<Rightarrow> py_error + scalar" where
  "py_sub a b =
     (case (a, b) of
        (SNum x, SNum y) \<Rightarrow> Inr (SNum (x - y))
      | (NonFinite, SNum _) \<Rightarrow> Inr NonFinite
      | (SNum _, NonFinite) \<Rightarrow> Inr NonFinite
      | (NonFinite, NonFinite) \<Rightarrow> Inr NonFinite
      | _ \<Rightarrow> Inl TypeError)"

definition py_truediv :: "scalar \<Rightarrow> scalar \<Rightarrow> py_error + scalar" where
  "py_truediv a b =
     (case (a, b) of
        (SNum x, SNum y) \<Rightarrow> Inr (if y = 0 then NonFinite else SNum (x / y))
      | (NonFinite, SNum _) \<Rightarrow> Inr NonFinite
      | (SNum _, NonFinite) \<Rightarrow> Inr NonFinite
      | (NonFinite, NonFinite) \<Rightarrow> Inr NonFinite
      | _ \<Rightarrow> Inl TypeError)"

text \<open>
  A Python \<open>dict\<close> keeps its keys in the order of their first insertion:
  \<open>d[k] = v\<close> replaces the value of a key already there and appends a new key.
\<close>

definition dict_set :: "metrics \<Rightarrow> string \<Rightarrow> scalar \<Rightarrow> metrics" where
  "dict_set d k v =
     (if k \<in> set (map fst d) then map (\<lambda>(k', v'). if k' = k then (k', v) else (k', v')) d
      else d @ [(k, v)])"

definition dict_get :: "metrics \<Rightarrow> string \<Rightarrow> py_error + scalar" where
  "dict_get d k = (case map_of d k of None \<Rightarrow> Inl (KeyError k) | Some v \<Rightarrow> Inr v)"

section \<open>The metrics engine\<close>

text \<open>
  \<open>df.columns[colunas == token][0]\<close>: the first label whose lower-cased form is the
  token, \<open>IndexError\<close> when there is none.
\<close>

definition first_label :: "frame \<Rightarrow> string \<Rightarrow> py_error + string" where
  "first_label df token =
     (case filter (\<lambda>c. str_lower c = token) (columns df) of
        [] \<Rightarrow> Inl IndexError
      | c # _ \<Rightarrow> Inr c)"

text \<open>\<open>df.loc[:, df.columns[colunas == token][0]].sum()\<close>\<close>

definition sum_ci :: "frame \<Rightarrow> string \<Rightarrow> py_error + scalar" where
  "sum_ci df token =
     (case first_label df token of
        Inl e \<Rightarrow> Inl e
      | Inr c \<Rightarrow> (case getitem df c of Inl e \<Rightarrow> Inl e | Inr xs \<Rightarrow> series_sum xs))"

text \<open>\<open>df[name].sum()\<close>, the label taken as it is written.\<close>

definition sum_lit :: "frame \<Rightarrow> string \<Rightarrow> py_error + scalar" where
  "sum_lit df name = (case getitem df name of Inl e \<Rightarrow> Inl e | Inr xs \<Rightarrow> series_sum xs)"

text \<open>The five rules of \<open>calcular_metricas\<close>, each one \<open>if\<close> of the source, in its order.\<close>

definition rule_receita :: "frame \<Rightarrow> string list \<Rightarrow> metrics \<Rightarrow> py_error + metrics" where
  "rule_receita df colunas metricas =
     (if ''receita'' \<in> set colunas then
        (case sum_ci df ''receita'' of
           Inl e \<Rightarrow> Inl e
         | Inr v \<Rightarrow> Inr (dict_set metricas Receita_Total v))
      else Inr metricas)"

definition rule_despesa :: "frame \<Rightarrow> string list \<Rightarrow> metrics \<Rightarrow> py_error + metrics" where
  "rule_despesa df colunas metricas =
     (if ''despesa'' \<in> set colunas then
        (case sum_ci df ''despesa'' of
           Inl e \<Rightarrow> Inl e
         | Inr v \<Rightarrow> Inr (dict_set metricas Custo_Operacional_Total v))
      else Inr metricas)"

text \<open>\<open>df['producao'].sum() / df['funcionario'].nunique()\<close>, the left operand first.\<close>

definition quot_produtividade :: "frame \<Rightarrow> py_error + scalar" where
  "quot_produtividade df =
     (case sum_lit df ''producao'' of
        Inl e \<Rightarrow> Inl e
      | Inr s \<Rightarrow>
         (case getitem df ''funcionario'' of
            Inl e \<Rightarrow> Inl e
          | Inr fs \<Rightarrow> py_truediv s (SNum (of_nat (nunique fs)))))"

definition rule_produtividade :: "frame \<Rightarrow> string list \<Rightarrow> metrics \<Rightarrow> py_error + metrics" where
  "rule_produtividade df colunas metricas =
     (if ''funcionario'' \<in> set colunas \<and> ''producao'' \<in> set colunas then
        (case quot_produtividade df of
           Inl e \<Rightarrow> Inl e
         | Inr v \<Rightarrow> Inr (dict_set metricas Produtividade_Media v))
      else Inr metricas)"

text \<open>\<open>metricas['Receita Total'] - metricas['Custo Operacional Total']\<close>\<close>

definition diff_lucro :: "metrics \<Rightarrow> py_error + scalar" where
  "diff_lucro metricas =
     (case dict_get metricas Receita_Total of
        Inl e \<Rightarrow> Inl e
      | Inr a \<Rightarrow>
         (case dict_get metricas Custo_Operacional_Total of
            Inl e \<Rightarrow> Inl e
          | Inr b \<Rightarrow> py_sub a b))"

definition rule_lucro :: "string list \<Rightarrow> metrics \<Rightarrow> py_error + metrics" where
  "rule_lucro colunas metricas =
     (if ''receita'' \<in> set colunas \<and> ''despesa'' \<in> set colunas then
        (case diff_lucro metricas of
           Inl e \<Rightarrow> Inl e
         | Inr v \<Rightarrow> Inr (dict_set metricas Lucro_Liquido v))
      else Inr metricas)"

text \<open>\<open>df['vendas'].sum() / df['quantidade'].sum()\<close>\<close>

definition quot_ticket :: "frame \<Rightarrow> py_error + scalar" where
  "quot_ticket df =
     (case sum_lit df ''vendas'' of
        Inl e \<Rightarrow> Inl e
      | Inr a \<Rightarrow>
         (case sum_lit df ''quantidade'' of
            Inl e \<Rightarrow> Inl e
          | Inr b \<Rightarrow> py_truediv a b))"

definition rule_ticket :: "frame \<Rightarrow> string list \<Rightarrow> metrics \<Rightarrow> py_error + metrics" where
  "rule_ticket df colunas metricas =
     (if ''vendas'' \<in> set colunas \<and> ''quantidade'' \<in> set colunas then
        (case quot_ticket df of
           Inl e \<Rightarrow> Inl e
         | Inr v \<Rightarrow> Inr (dict_set metricas Ticket_Medio v))
      else Inr metricas)"

definition calcular_metricas :: "frame \<Rightarrow> py_error + metrics" where
  "calcular_metricas df =
     (let colunas = map str_lower (columns df) in
      (case rule_receita df colunas [] of Inl e \<Rightarrow> Inl e | Inr m1 \<Rightarrow>
      (case rule_despesa df colunas m1 of Inl e \<Rightarrow> Inl e | Inr m2 \<Rightarrow>
      (case rule_produtividade df colunas m2 of Inl e \<Rightarrow> Inl e | Inr m3 \<Rightarrow>
      (case rule_lucro colunas m3 of Inl e \<Rightarrow> Inl e | Inr m4 \<Rightarrow>
       rule_ticket df colunas m4)))))"

section \<open>The loader\<close>

text \<open>
  What the loader reads from: the listing of a directory (\<open>os.listdir\<close>, in the order
  the system gives, \<open>None\<close> when it raises) and the two readers of pandas, which return
  a table or raise; \<open>Inl\<close> carries the text of the exception. What the chart and the
  document exporters call: the parser behind \<open>pd.to_datetime\<close> (\<open>None\<close> for a value
  it cannot read), the text of a monthly period, and the format \<open>{v:,.2f}\<close>
  (\<open>None\<close> when it raises).
\<close>

record env =
  listdir :: "string \<Rightarrow> string list option"
  read_csv :: "string \<Rightarrow> string + frame"
  read_excel :: "string \<Rightarrow> string + frame"
  parse_date :: "cell \<Rightarrow> int option"
  period_str :: "int \<Rightarrow> string"
  format_2f :: "scalar \<Rightarrow> string option"

text \<open>\<open>os.path.join\<close> on two components (POSIX).\<close>

definition path_join :: "string \<Rightarrow> string \<Rightarrow> string" where
  "path_join a b =
     (if take 1 b = ''/'' then b
      else if a = [] \<or> endswith a ''/'' then a @ b
      else a @ ''/'' @ b)"

definition msg_no_files :: string where
  "msg_no_files =
     ''Nenhum arquivo CSV ou Excel encontrado no diret'' @ [CHR 0xC3, CHR 0xB3] @ ''rio informado.''"

definition msg_no_data :: string where
  "msg_no_data = ''Nenhum dado p'' @ [CHR 0xC3, CHR 0xB4] @ ''de ser carregado.''"

definition aviso :: "string \<Rightarrow> string \<Rightarrow> string" where
  "aviso arquivo e = ''[AVISO] Erro ao carregar '' @ arquivo @ '': '' @ e"

text \<open>\<open>f.endswith(('.csv', '.xlsx'))\<close>\<close>

definition recognized :: "string \<Rightarrow> bool" where
  "recognized f \<longleftrightarrow> endswith f ''.csv'' \<or> endswith f ''.xlsx''"

text \<open>The reader chosen by the extension, on the joined path.\<close>

definition read_file :: "env \<Rightarrow> string \<Rightarrow> string \<Rightarrow> string + frame" where
  "read_file env diretorio arquivo =
     (let caminho = path_join diretorio arquivo in
      if endswith arquivo ''.csv'' then read_csv env caminho else read_excel env caminho)"

text \<open>The body of the \<open>try\<close>: read, then tag every row with the file name.\<close>

definition load_file :: "env \<Rightarrow> string \<Rightarrow> string \<Rightarrow> string + frame" where
  "load_file env diretorio arquivo =
     (case read_file env diretorio arquivo of
        Inl e \<Rightarrow> Inl e
      | Inr df \<Rightarrow> Inr (setitem_scalar df ''Origem_Arquivo'' (Txt arquivo)))"

text \<open>
  The \<open>for\<close> loop, with the list \<open>dfs\<close> and the lines printed so far: a file that raises
  prints its warning and the loop goes on.
\<close>

fun load_loop :: "env \<Rightarrow> string \<Rightarrow> string list \<Rightarrow> frame list \<Rightarrow> string list
    \<Rightarrow> frame list \<times> string list" where
  "load_loop env diretorio [] dfs out = (dfs, out)"
| "load_loop env diretorio (arquivo # rest) dfs out =
     (case load_file env diretorio arquivo of
        Inl e \<Rightarrow> load_loop env diretorio rest dfs (out @ [aviso arquivo e])
      | Inr df \<Rightarrow> load_loop env diretorio rest (dfs @ [df]) out)"

text \<open>
  \<open>pd.concat(dfs, ignore_index=True)\<close>: the labels are the union of the labels of the
  tables, in the order of their first appearance; the rows follow table by table, each row
  with the missing value under the labels its table does not have.
\<close>

definition union_labels :: "string list \<Rightarrow> string list" where
  "union_labels cs = foldl (\<lambda>acc c. if c \<in> set acc then acc else acc @ [c]) [] cs"

definition reindex :: "string list \<Rightarrow> (string \<Rightarrow> cell) \<Rightarrow> (string \<Rightarrow> cell)" where
  "reindex cols r = (\<lambda>c. if c \<in> set cols then r c else Null)"

definition pd_concat :: "frame list \<Rightarrow> py_error + frame" where
  "pd_concat dfs =
     (if dfs = [] then Inl (ValueError ''No objects to concatenate'')
      else Inr \<lparr>columns = union_labels (concat (map columns dfs)),
                rows = concat (map (\<lambda>df. map (reindex (columns df)) (rows df)) dfs)\<rparr>)"

text \<open>\<open>carregar_dados\<close> returns the lines it printed and its result.\<close>

definition carregar_dados :: "env \<Rightarrow> string \<Rightarrow> string list \<times> (py_error + frame)" where
  "carregar_dados env diretorio =
     (case listdir env diretorio of
        None \<Rightarrow> ([], Inl OSError)
      | Some names \<Rightarrow>
          (let arquivos = filter recognized names in
           if arquivos = [] then ([], Inl (FileNotFoundError msg_no_files))
           else
             (let (dfs, out) = load_loop env diretorio arquivos [] [] in
              if dfs = [] then (out, Inl (ValueError msg_no_data))
              else (out, pd_concat dfs))))"

section \<open>The exporters and the main sequence\<close>

text \<open>
  Python passes a table by reference: \<open>gerar_graficos\<close> receives the very object that
  \<open>main\<close> holds, so an assignment to a column of it is seen by the caller, while an
  assignment to the local name \<open>df\<close> is not. The store below holds the tables by
  address; a name is an address. The files written are kept by path. The progress lines
  that \<open>main\<close> and the exporters print are not part of the state.
\<close>

datatype figure =
    Line frame string string string
  | Bar frame string string string

datatype sheet = Table frame | Items "string list" metrics

datatype artifact =
    Html figure
  | Xlsx "(string \<times> sheet) list"
  | Pdf "(int \<times> int \<times> string) list"

record world =
  heap :: "nat \<Rightarrow> frame"
  next_ref :: nat
  files :: "string \<Rightarrow> artifact option"

definition alloc :: "frame \<Rightarrow> world \<Rightarrow> nat \<times> world" where
  "alloc f w = (next_ref w, w\<lparr>heap := (heap w)(next_ref w := f), next_ref := Suc (next_ref w)\<rparr>)"

definition write_file :: "string \<Rightarrow> artifact \<Rightarrow> world \<Rightarrow> world" where
  "write_file path a w = w\<lparr>files := (files w)(path \<mapsto> a)\<rparr>"

text \<open>\<open>pd.to_datetime(..., errors='coerce')\<close> on one value.\<close>

definition to_datetime :: "env \<Rightarrow> cell \<Rightarrow> cell" where
  "to_datetime env c = (case parse_date env c of Some t \<Rightarrow> Stamp t | None \<Rightarrow> Null)"

text \<open>\<open>df.dropna(subset=[name])\<close>: a new table, without the rows missing that value.\<close>

definition dropna :: "frame \<Rightarrow> string \<Rightarrow> frame" where
  "dropna df name = df\<lparr>rows := filter (\<lambda>r. r name \<noteq> Null) (rows df)\<rparr>"

text \<open>\<open>.dt.to_period('M').astype(str)\<close> on one value.\<close>

definition month_label :: "env \<Rightarrow> cell \<Rightarrow> cell" where
  "month_label env c = (case c of Stamp t \<Rightarrow> Txt (period_str env t) | _ \<Rightarrow> Txt ''NaT'')"

definition titulo_receita :: string where
  "titulo_receita =
     ''Evolu'' @ [CHR 0xC3, CHR 0xA7, CHR 0xC3, CHR 0xA3] @ ''o da Receita Mensal''"

definition titulo_despesa :: string where
  "titulo_despesa = ''Custos Operacionais por M'' @ [CHR 0xC3, CHR 0xAA] @ ''s''"

text \<open>
  \<open>gerar_graficos\<close>: \<open>df\<close> is the address the caller passed. The first assignment
  writes the column \<open>data\<close> of the table at that address; \<open>df = df.dropna(...)\<close>
  makes the local name point to a new table, which alone receives the month column and
  feeds the charts.
\<close>

definition gerar_graficos :: "env \<Rightarrow> nat \<Rightarrow> string \<Rightarrow> world \<Rightarrow> world" where
  "gerar_graficos env df pasta_saida w =
     (if ''data'' \<in> set (columns (heap w df)) then
        (let w1 = w\<lparr>heap := (heap w)(df :=
                     setitem (heap w df) ''data''
                       (map (\<lambda>r. to_datetime env (r ''data'')) (rows (heap w df))))\<rparr>;
             (df', w2) = alloc (dropna (heap w1 df) ''data'') w1;
             w3 = w2\<lparr>heap := (heap w2)(df' :=
                     setitem (heap w2 df') mes
                       (map (\<lambda>r. month_label env (r ''data'')) (rows (heap w2 df'))))\<rparr>;
             w4 = (if ''receita'' \<in> set (columns (heap w3 df')) then
                     write_file (path_join pasta_saida ''grafico_receita.html'')
                       (Html (Line (heap w3 df') mes ''receita'' titulo_receita)) w3
                   else w3);
             w5 = (if ''despesa'' \<in> set (columns (heap w4 df')) then
                     write_file (path_join pasta_saida ''grafico_despesa.html'')
                       (Html (Bar (heap w4 df') mes ''despesa'' titulo_despesa)) w4
                   else w4)
         in w5)
      else w)"

definition Metrica :: string where
  "Metrica = ''M'' @ [CHR 0xC3, CHR 0xA9] @ ''trica''"

text \<open>
  \<open>exportar_excel\<close>: one workbook with the table at the address \<open>df\<close>, as it is when
  the exporter runs, and the items of the metrics.
\<close>

definition exportar_excel :: "metrics \<Rightarrow> nat \<Rightarrow> string \<Rightarrow> world \<Rightarrow> world" where
  "exportar_excel metricas df pasta_saida w =
     write_file (path_join pasta_saida ''relatorio_administrativo.xlsx'')
       (Xlsx [(''Dados Consolidados'', Table (heap w df)),
              (''Indicadores'', Items [Metrica, ''Valor''] metricas)]) w"

text \<open>
  \<open>exportar_pdf\<close>: the title, then one line per metric, 20 points lower each time; a
  value the format refuses raises before the file is saved.
\<close>

fun pdf_lines :: "env \<Rightarrow> metrics \<Rightarrow> int \<Rightarrow> py_error + (int \<times> int \<times> string) list" where
  "pdf_lines env [] y = Inr []"
| "pdf_lines env ((k, v) # rest) y =
     (case format_2f env v of
        None \<Rightarrow> Inl (ValueError ''format'')
      | Some s \<Rightarrow>
          (case pdf_lines env rest (y - 20) of
             Inl e \<Rightarrow> Inl e
           | Inr ls \<Rightarrow> Inr ((100, y, k @ '': '' @ s) # ls)))"

definition titulo_pdf :: string where
  "titulo_pdf = ''Relat'' @ [CHR 0xC3, CHR 0xB3] @ ''rio Administrativo''"

definition exportar_pdf :: "env \<Rightarrow> metrics \<Rightarrow> string \<Rightarrow> world \<Rightarrow> py_error + world" where
  "exportar_pdf env metricas pasta_saida w =
     (case pdf_lines env metricas 760 of
        Inl e \<Rightarrow> Inl e
      | Inr ls \<Rightarrow>
          Inr (write_file (path_join pasta_saida ''relatorio_administrativo.pdf'')
                 (Pdf ((200, 800, titulo_pdf) # ls)) w))"

text \<open>
  \<open>main\<close>, after the arguments are read and the output directory is made: the exit
  status and the final state. Any
  exception of a step ends the sequence with status 1; what was written before stays.
\<close>

definition main :: "env \<Rightarrow> string \<Rightarrow> string \<Rightarrow> world \<Rightarrow> nat \<times> world" where
  "main env input output w0 =
     (case snd (carregar_dados env input) of
        Inl e \<Rightarrow> (1, w0)
      | Inr f \<Rightarrow>
          (let (df, w1) = alloc f w0 in
           (case calcular_metricas (heap w1 df) of
              Inl e \<Rightarrow> (1, w1)
            | Inr metricas \<Rightarrow>
                (let w2 = gerar_graficos env df output w1;
                     w3 = exportar_excel metricas df output w2
                 in (case exportar_pdf env metricas output w3 of
                       Inl e \<Rightarrow> (1, w3)
                     | Inr w4 \<Rightarrow> (0, w4))))))"

section \<open>Notions used to state the properties\<close>

text \<open>
  A column is present for a token of the vocabulary when some label, lower-cased, is the
  token: the test \<open>token in colunas\<close> of the source.
\<close>

definition has_col :: "frame \<Rightarrow> string \<Rightarrow> bool" where
  "has_col df token \<longleftrightarrow> token \<in> set (map str_lower (columns df))"

text \<open>The difference of the two totals, as rule 4 finds them in the mapping.\<close>

definition lucro_of :: "frame \<Rightarrow> py_error + scalar" where
  "lucro_of df = py_sub (projr (sum_ci df ''receita'')) (projr (sum_ci df ''despesa''))"

text \<open>The column under a label, as a list, and the sum of its numbers.\<close>

definition column :: "frame \<Rightarrow> string \<Rightarrow> cell list" where
  "column df name = map (\<lambda>r. r name) (rows df)"

definition total :: "frame \<Rightarrow> string \<Rightarrow> rat" where
  "total df name = sum_list (map num_of (column df name))"

text \<open>
  A table on which no rule of the engine can raise: the columns that the rules sum hold
  numbers and missing values only, and the labels that rules 3 and 5 read literally are
  written in lower case.
\<close>

definition well_typed :: "frame \<Rightarrow> bool" where
  "well_typed df \<longleftrightarrow>
     (\<forall>c \<in> set (columns df).
        str_lower c \<in> set [''receita'', ''despesa'', ''producao'', ''vendas'', ''quantidade'']
          \<longrightarrow> list_all is_numeric (column df c)) \<and>
     (\<forall>c \<in> set (columns df).
        str_lower c \<in> set [''funcionario'', ''producao'', ''vendas'', ''quantidade'']
          \<longrightarrow> str_lower c = c)"

text \<open>The five indicators in the order of evaluation, and the precondition of each.\<close>

definition indicadores :: "string list" where
  "indicadores =
     [Receita_Total, Custo_Operacional_Total, Produtividade_Media, Lucro_Liquido, Ticket_Medio]"

definition precondicao :: "frame \<Rightarrow> string \<Rightarrow> bool" where
  "precondicao df k \<longleftrightarrow>
     (k = Receita_Total \<and> has_col df ''receita'') \<or>
     (k = Custo_Operacional_Total \<and> has_col df ''despesa'') \<or>
     (k = Produtividade_Media \<and> has_col df ''funcionario'' \<and> has_col df ''producao'') \<or>
     (k = Lucro_Liquido \<and> has_col df ''receita'' \<and> has_col df ''despesa'') \<or>
     (k = Ticket_Medio \<and> has_col df ''vendas'' \<and> has_col df ''quantidade'')"

text \<open>
  A table written out: the labels and the rows, cell by cell. A row shorter than the
  labels has the missing value in the cells it lacks.
\<close>

definition frame_of :: "string list \<Rightarrow> cell list list \<Rightarrow> frame" where
  "frame_of cols rs =
     \<lparr>columns = cols,
      rows = map (\<lambda>r c. case map_of (zip cols r) c of Some v \<Rightarrow> v | None \<Rightarrow> Null) rs\<rparr>"

text \<open>
  A row of a file as the consolidated table must show it: the file name under
  \<open>Origem_Arquivo\<close>, the cells of the file under its own labels, the missing value
  elsewhere. A file contributes its rows in their order, or nothing when it failed to parse.
\<close>

definition tag_row :: "string \<Rightarrow> string list \<Rightarrow> (string \<Rightarrow> cell) \<Rightarrow> (string \<Rightarrow> cell)" where
  "tag_row arquivo cols r =
     (\<lambda>c. if c = ''Origem_Arquivo'' then Txt arquivo else if c \<in> set cols then r c else Null)"

definition contribution :: "env \<Rightarrow> string \<Rightarrow> string \<Rightarrow> (string \<Rightarrow> cell) list" where
  "contribution env diretorio arquivo =
     (case read_file env diretorio arquivo of
        Inl e \<Rightarrow> []
      | Inr f \<Rightarrow> map (tag_row arquivo (columns f)) (rows f))"

definition origins :: "env \<Rightarrow> string \<Rightarrow> string \<Rightarrow> cell list" where
  "origins env diretorio arquivo =
     (case read_file env diretorio arquivo of
        Inl e \<Rightarrow> []
      | Inr f \<Rightarrow> replicate (length (rows f)) (Txt arquivo))"

text \<open>The warnings of the files that failed to parse, in the order of the listing.\<close>

definition avisos :: "env \<Rightarrow> string \<Rightarrow> string list \<Rightarrow> string list" where
  "avisos env diretorio arquivos =
     concat (map (\<lambda>a. case read_file env diretorio a of Inl e \<Rightarrow> [aviso a e] | Inr f \<Rightarrow> [])
               arquivos)"

text \<open>The tables the loop has collected from a list of files.\<close>

definition loaded :: "env \<Rightarrow> string \<Rightarrow> string list \<Rightarrow> frame list" where
  "loaded env diretorio arquivos =
     concat (map (\<lambda>a. case load_file env diretorio a of Inl e \<Rightarrow> [] | Inr f \<Rightarrow> [f]) arquivos)"

text \<open>
  Concrete directories. \<open>relatorios\<close> is the scenario of two CSV files: \<open>a.csv\<close> with
  the columns receita and despesa and two rows, \<open>b.csv\<close> with the column receita and one
  row. \<open>misto\<close> has the same two files, a text file that is not read and, between them,
  a workbook that does not parse. \<open>vazio\<close> has no file with a recognized extension,
  \<open>quebrado\<close> has only the broken workbook, and \<open>datas\<close> has one file with a date
  column whose second value is not a date.
\<close>

definition scenario_env :: env where
  "scenario_env =
     \<lparr>listdir = (\<lambda>d.
         if d = ''relatorios'' then Some [''a.csv'', ''b.csv'']
         else if d = ''misto'' then Some [''a.csv'', ''notas.txt'', ''c.xlsx'', ''b.csv'']
         else if d = ''vazio'' then Some [''notas.txt'']
         else if d = ''quebrado'' then Some [''c.xlsx'']
         else if d = ''datas'' then Some [''d.csv'']
         else None),
      read_csv = (\<lambda>p.
         if p = ''relatorios/a.csv'' \<or> p = ''misto/a.csv''
         then Inr (frame_of [''receita'', ''despesa''] [[Num 100, Num 40], [Num 200, Num 60]])
         else if p = ''relatorios/b.csv'' \<or> p = ''misto/b.csv''
         then Inr (frame_of [''receita''] [[Num 50]])
         else if p = ''datas/d.csv''
         then Inr (frame_of [''data'', ''receita'']
                     [[Txt ''2024-01-15'', Num 100], [Txt ''ontem'', Num 200]])
         else Inl ''No such file''),
      read_excel = (\<lambda>p. Inl ''File is not a zip file''),
      parse_date = (\<lambda>c. if c = Txt ''2024-01-15'' then Some 1705276800000000000 else None),
      period_str = (\<lambda>t. ''2024-01''),
      format_2f = (\<lambda>v. if v = SNum 300 then Some ''300.00'' else None)\<rparr>"

definition scenario_df :: frame where
  "scenario_df = projr (snd (carregar_dados scenario_env ''relatorios''))"

definition misto_df :: frame where
  "misto_df = projr (snd (carregar_dados scenario_env ''misto''))"

definition datas_df :: frame where
  "datas_df = projr (snd (carregar_dados scenario_env ''datas''))"

definition empty_world :: world where
  "empty_world = \<lparr>heap = (\<lambda>a. frame_of [] []), next_ref = 0, files = Map.empty\<rparr>"

section \<open>Properties of the metrics engine\<close>

lemma keys_distinct:
  "distinct [Receita_Total, Custo_Operacional_Total, Produtividade_Media, Lucro_Liquido, Ticket_Medio]"
  by (simp add: Receita_Total_def Custo_Operacional_Total_def Produtividade_Media_def
      Lucro_Liquido_def Ticket_Medio_def)

lemma rule_receita_Inr:
  assumes "rule_receita df cs m = Inr m'"
  shows "m' = (if ''receita'' \<in> set cs then dict_set m Receita_Total (projr (sum_ci df ''receita'')) else m)"
    and "''receita'' \<in> set cs \<Longrightarrow> \<not> isl (sum_ci df ''receita'')"
  using assms by (auto simp: rule_receita_def split: if_splits sum.splits)

lemma rule_despesa_Inr:
  assumes "rule_despesa df cs m = Inr m'"
  shows "m' = (if ''despesa'' \<in> set cs then dict_set m Custo_Operacional_Total (projr (sum_ci df ''despesa'')) else m)"
    and "''despesa'' \<in> set cs \<Longrightarrow> \<not> isl (sum_ci df ''despesa'')"
  using assms by (auto simp: rule_despesa_def split: if_splits sum.splits)

lemma rule_produtividade_Inr:
  assumes "rule_produtividade df cs m = Inr m'"
  shows "m' = (if ''funcionario'' \<in> set cs \<and> ''producao'' \<in> set cs
               then dict_set m Produtividade_Media (projr (quot_produtividade df)) else m)"
    and "''funcionario'' \<in> set cs \<Longrightarrow> ''producao'' \<in> set cs \<Longrightarrow> \<not> isl (quot_produtividade df)"
  using assms by (auto simp: rule_produtividade_def split: if_splits sum.splits)

lemma rule_ticket_Inr:
  assumes "rule_ticket df cs m = Inr m'"
  shows "m' = (if ''vendas'' \<in> set cs \<and> ''quantidade'' \<in> set cs
               then dict_set m Ticket_Medio (projr (quot_ticket df)) else m)"
    and "''vendas'' \<in> set cs \<Longrightarrow> ''quantidade'' \<in> set cs \<Longrightarrow> \<not> isl (quot_ticket df)"
  using assms by (auto simp: rule_ticket_def split: if_splits sum.splits)

lemma rule_lucro_Inr:
  assumes "rule_lucro cs m = Inr m'"
  shows "m' = (if ''receita'' \<in> set cs \<and> ''despesa'' \<in> set cs
               then dict_set m Lucro_Liquido (projr (diff_lucro m)) else m)"
    and "''receita'' \<in> set cs \<Longrightarrow> ''despesa'' \<in> set cs \<Longrightarrow> \<not> isl (diff_lucro m)"
  using assms by (auto simp: rule_lucro_def split: if_splits sum.splits)

lemma calcular_metricas_chain:
  assumes "calcular_metricas df = Inr m"
  obtains m1 m2 m3 m4 where
    "rule_receita df (map str_lower (columns df)) [] = Inr m1"
    "rule_despesa df (map str_lower (columns df)) m1 = Inr m2"
    "rule_produtividade df (map str_lower (columns df)) m2 = Inr m3"
    "rule_lucro (map str_lower (columns df)) m3 = Inr m4"
    "rule_ticket df (map str_lower (columns df)) m4 = Inr m"
  using assms unfolding calcular_metricas_def Let_def
  by (auto split: sum.splits)

lemma calcular_metricas_shape:
  assumes ret: "calcular_metricas df = Inr m"
  shows "m =
      (if has_col df ''receita'' then [(Receita_Total, projr (sum_ci df ''receita''))] else []) @
      (if has_col df ''despesa'' then [(Custo_Operacional_Total, projr (sum_ci df ''despesa''))] else []) @
      (if has_col df ''funcionario'' \<and> has_col df ''producao''
       then [(Produtividade_Media, projr (quot_produtividade df))] else []) @
      (if has_col df ''receita'' \<and> has_col df ''despesa''
       then [(Lucro_Liquido, projr (lucro_of df))] else []) @
      (if has_col df ''vendas'' \<and> has_col df ''quantidade''
       then [(Ticket_Medio, projr (quot_ticket df))] else [])"
    and "has_col df ''receita'' \<Longrightarrow> \<not> isl (sum_ci df ''receita'')"
    and "has_col df ''despesa'' \<Longrightarrow> \<not> isl (sum_ci df ''despesa'')"
    and "has_col df ''funcionario'' \<Longrightarrow> has_col df ''producao'' \<Longrightarrow> \<not> isl (quot_produtividade df)"
    and "has_col df ''receita'' \<Longrightarrow> has_col df ''despesa'' \<Longrightarrow> \<not> isl (lucro_of df)"
    and "has_col df ''vendas'' \<Longrightarrow> has_col df ''quantidade'' \<Longrightarrow> \<not> isl (quot_ticket df)"
proof -
  define cs where "cs = map str_lower (columns df)"
  have h: "\<And>t. has_col df t \<longleftrightarrow> t \<in> set cs"
    by (simp add: has_col_def cs_def)
  from ret obtain m1 m2 m3 m4 where
    r1: "rule_receita df cs [] = Inr m1" and
    r2: "rule_despesa df cs m1 = Inr m2" and
    r3: "rule_produtividade df cs m2 = Inr m3" and
    r4: "rule_lucro cs m3 = Inr m4" and
    r5: "rule_ticket df cs m4 = Inr m"
    unfolding cs_def by (rule calcular_metricas_chain)
  note kd = keys_distinct [simplified]
  have m1: "m1 = (if ''receita'' \<in> set cs then [(Receita_Total, projr (sum_ci df ''receita''))] else [])"
    using rule_receita_Inr(1) [OF r1] by (simp add: dict_set_def)
  have m2: "m2 = m1 @ (if ''despesa'' \<in> set cs then [(Custo_Operacional_Total, projr (sum_ci df ''despesa''))] else [])"
    using rule_despesa_Inr(1) [OF r2] kd by (auto simp: dict_set_def m1)
  have m3: "m3 = m2 @ (if ''funcionario'' \<in> set cs \<and> ''producao'' \<in> set cs
       then [(Produtividade_Media, projr (quot_produtividade df))] else [])"
    using rule_produtividade_Inr(1) [OF r3] kd by (auto simp: dict_set_def m1 m2)
  have d: "''receita'' \<in> set cs \<Longrightarrow> ''despesa'' \<in> set cs \<Longrightarrow> diff_lucro m3 = lucro_of df"
    using kd by (auto simp: diff_lucro_def dict_get_def lucro_of_def m1 m2 m3)
  have m4: "m4 = m3 @ (if ''receita'' \<in> set cs \<and> ''despesa'' \<in> set cs
       then [(Lucro_Liquido, projr (lucro_of df))] else [])"
    using rule_lucro_Inr(1) [OF r4] kd d by (auto simp: dict_set_def m1 m2 m3)
  have m5: "m = m4 @ (if ''vendas'' \<in> set cs \<and> ''quantidade'' \<in> set cs
       then [(Ticket_Medio, projr (quot_ticket df))] else [])"
    using rule_ticket_Inr(1) [OF r5] kd by (auto simp: dict_set_def m1 m2 m3 m4)
  show "m =
      (if has_col df ''receita'' then [(Receita_Total, projr (sum_ci df ''receita''))] else []) @
      (if has_col df ''despesa'' then [(Custo_Operacional_Total, projr (sum_ci df ''despesa''))] else []) @
      (if has_col df ''funcionario'' \<and> has_col df ''producao''
       then [(Produtividade_Media, projr (quot_produtividade df))] else []) @
      (if has_col df ''receita'' \<and> has_col df ''despesa''
       then [(Lucro_Liquido, projr (lucro_of df))] else []) @
      (if has_col df ''vendas'' \<and> has_col df ''quantidade''
       then [(Ticket_Medio, projr (quot_ticket df))] else [])"
    by (simp add: h m5 m4 m3 m2 m1)
  show "has_col df ''receita'' \<Longrightarrow> \<not> isl (sum_ci df ''receita'')"
    using rule_receita_Inr(2) [OF r1] by (simp add: h)
  show "has_col df ''despesa'' \<Longrightarrow> \<not> isl (sum_ci df ''despesa'')"
    using rule_despesa_Inr(2) [OF r2] by (simp add: h)
  show "has_col df ''funcionario'' \<Longrightarrow> has_col df ''producao'' \<Longrightarrow> \<not> isl (quot_produtividade df)"
    using rule_produtividade_Inr(2) [OF r3] by (simp add: h)
  show "has_col df ''receita'' \<Longrightarrow> has_col df ''despesa'' \<Longrightarrow> \<not> isl (lucro_of df)"
    using rule_lucro_Inr(2) [OF r4] d by (simp add: h)
  show "has_col df ''vendas'' \<Longrightarrow> has_col df ''quantidade'' \<Longrightarrow> \<not> isl (quot_ticket df)"
    using rule_ticket_Inr(2) [OF r5] by (simp add: h)
qed

lemma keys_neq:
  "Receita_Total \<noteq> Custo_Operacional_Total" "Receita_Total \<noteq> Produtividade_Media"
  "Receita_Total \<noteq> Lucro_Liquido" "Receita_Total \<noteq> Ticket_Medio"
  "Custo_Operacional_Total \<noteq> Receita_Total" "Custo_Operacional_Total \<noteq> Produtividade_Media"
  "Custo_Operacional_Total \<noteq> Lucro_Liquido" "Custo_Operacional_Total \<noteq> Ticket_Medio"
  "Produtividade_Media \<noteq> Receita_Total" "Produtividade_Media \<noteq> Custo_Operacional_Total"
  "Produtividade_Media \<noteq> Lucro_Liquido" "Produtividade_Media \<noteq> Ticket_Medio"
  "Lucro_Liquido \<noteq> Receita_Total" "Lucro_Liquido \<noteq> Custo_Operacional_Total"
  "Lucro_Liquido \<noteq> Produtividade_Media" "Lucro_Liquido \<noteq> Ticket_Medio"
  "Ticket_Medio \<noteq> Receita_Total" "Ticket_Medio \<noteq> Custo_Operacional_Total"
  "Ticket_Medio \<noteq> Produtividade_Media" "Ticket_Medio \<noteq> Lucro_Liquido"
  using keys_distinct by auto

text \<open>A reduction never gives the non-finite value; only a division does.\<close>

lemma series_sum_finite: "series_sum xs = Inr v \<Longrightarrow> v \<noteq> NonFinite"
  by (auto simp: series_sum_def split: if_splits)


lemma sum_lit_finite: "sum_lit df t = Inr v \<Longrightarrow> v \<noteq> NonFinite"
  by (auto simp: sum_lit_def split: sum.splits dest: series_sum_finite)


lemma py_truediv_numbers:
  assumes "py_truediv a b = Inr v" "a \<noteq> NonFinite" "b \<noteq> NonFinite"
  obtains x y where "a = SNum x" "b = SNum y" "v = (if y = 0 then NonFinite else SNum (x / y))"
  using assms by (auto simp: py_truediv_def split: scalar.splits)

lemma sum_lit_number:
  assumes "sum_lit df name = Inr (SNum x)"
  shows "name \<in> set (columns df)" and "x = total df name"
  using assms
  by (auto simp: sum_lit_def getitem_def series_sum_def total_def column_def
      split: if_splits sum.splits)

lemma has_col_literal: "name \<in> set (columns df) \<Longrightarrow> str_lower name = name \<Longrightarrow> has_col df name"
  by (force simp: has_col_def)

text \<open>On a well-typed table every rule returns, and so does the engine.\<close>

lemma sum_ci_numeric:
  assumes "has_col df t"
    and "\<And>c. c \<in> set (columns df) \<Longrightarrow> str_lower c = t \<Longrightarrow> list_all is_numeric (column df c)"
  shows "\<exists>x. sum_ci df t = Inr (SNum x)"
proof -
  from assms(1) have "filter (\<lambda>c. str_lower c = t) (columns df) \<noteq> []"
    by (auto simp: has_col_def filter_empty_conv)
  then obtain c cs where f: "filter (\<lambda>c. str_lower c = t) (columns df) = c # cs"
    by (cases "filter (\<lambda>c. str_lower c = t) (columns df)") auto
  then have "c \<in> set (filter (\<lambda>c. str_lower c = t) (columns df))"
    by simp
  then have c: "c \<in> set (columns df)" "str_lower c = t"
    by auto
  from assms(2) [OF c] show ?thesis
    using c(1) by (simp add: sum_ci_def first_label_def f getitem_def series_sum_def column_def)
qed

lemma sum_lit_numeric:
  assumes "name \<in> set (columns df)" and "list_all is_numeric (column df name)"
  shows "sum_lit df name = Inr (SNum (total df name))"
  using assms by (simp add: sum_lit_def getitem_def series_sum_def column_def total_def)

lemma has_col_lower:
  assumes "has_col df t"
    and "\<And>c. c \<in> set (columns df) \<Longrightarrow> str_lower c = t \<Longrightarrow> str_lower c = c"
  shows "t \<in> set (columns df)"
proof -
  from assms(1) obtain c where c: "c \<in> set (columns df)" "str_lower c = t"
    by (auto simp: has_col_def)
  from assms(2) [OF c] c show ?thesis by simp
qed

lemma py_truediv_numbers_Inr:
  "py_truediv (SNum x) (SNum y) = Inr (if y = 0 then NonFinite else SNum (x / y))"
  by (simp add: py_truediv_def)

lemma calcular_metricas_returns:
  assumes wt: "well_typed df"
  shows "\<exists>m. calcular_metricas df = Inr m"
proof -
  define cs where "cs = map str_lower (columns df)"
  have h: "\<And>t. t \<in> set cs \<longleftrightarrow> has_col df t"
    by (simp add: has_col_def cs_def)
  have num: "\<And>c t. c \<in> set (columns df) \<Longrightarrow> str_lower c = t \<Longrightarrow>
      t \<in> set [''receita'', ''despesa'', ''producao'', ''vendas'', ''quantidade''] \<Longrightarrow>
      list_all is_numeric (column df c)"
    using wt unfolding well_typed_def by blast
  have low: "\<And>c t. c \<in> set (columns df) \<Longrightarrow> str_lower c = t \<Longrightarrow>
      t \<in> set [''funcionario'', ''producao'', ''vendas'', ''quantidade''] \<Longrightarrow> str_lower c = c"
    using wt unfolding well_typed_def by blast
  have lit: "t \<in> set (columns df)"
    if "has_col df t" "t \<in> set [''funcionario'', ''producao'', ''vendas'', ''quantidade'']" for t
    using that(1) by (rule has_col_lower) (rule low [OF _ _ that(2)])
  have litnum: "sum_lit df t = Inr (SNum (total df t))"
    if a: "has_col df t" "t \<in> set [''producao'', ''vendas'', ''quantidade'']" for t
  proof -
    have c: "t \<in> set (columns df)" using a by (auto intro: lit)
    moreover have "str_lower t = t"
      using a(2) by (auto simp: str_lower_def char_lower_def)
    ultimately have "list_all is_numeric (column df t)"
      using a(2) by (auto intro: num)
    with c show ?thesis by (rule sum_lit_numeric)
  qed
  obtain a where a: "has_col df ''receita'' \<Longrightarrow> sum_ci df ''receita'' = Inr (SNum a)"
    using sum_ci_numeric [of df "''receita''"] num by (cases "has_col df ''receita''") auto
  obtain b where b: "has_col df ''despesa'' \<Longrightarrow> sum_ci df ''despesa'' = Inr (SNum b)"
    using sum_ci_numeric [of df "''despesa''"] num by (cases "has_col df ''despesa''") auto
  define m1 where "m1 = (if has_col df ''receita'' then [(Receita_Total, SNum a)] else [])"
  define m2 where "m2 = m1 @ (if has_col df ''despesa'' then [(Custo_Operacional_Total, SNum b)] else [])"
  have r1: "rule_receita df cs [] = Inr m1"
    using a by (simp add: rule_receita_def h m1_def dict_set_def)
  have r2: "rule_despesa df cs m1 = Inr m2"
    using b by (auto simp: rule_despesa_def h m1_def m2_def dict_set_def keys_neq)
  have q3: "\<exists>v. quot_produtividade df = Inr v"
    if "has_col df ''funcionario''" "has_col df ''producao''"
    using that lit [of "''funcionario''"] litnum [of "''producao''"]
    by (simp add: quot_produtividade_def getitem_def py_truediv_numbers_Inr)
  obtain m3 where r3: "rule_produtividade df cs m2 = Inr m3"
    and g3: "map_of m3 Receita_Total = map_of m2 Receita_Total"
      "map_of m3 Custo_Operacional_Total = map_of m2 Custo_Operacional_Total"
    using q3
    by (cases "has_col df ''funcionario'' \<and> has_col df ''producao''")
      (auto simp: rule_produtividade_def h dict_set_def keys_neq m1_def m2_def)
  have d4: "\<exists>v. diff_lucro m3 = Inr v"
    if "has_col df ''receita''" "has_col df ''despesa''"
    using that
    by (simp add: diff_lucro_def dict_get_def g3 m2_def m1_def keys_neq py_sub_def)
  obtain m4 where r4: "rule_lucro cs m3 = Inr m4"
    using d4 by (cases "has_col df ''receita'' \<and> has_col df ''despesa''")
      (auto simp: rule_lucro_def h)
  have q5: "\<exists>v. quot_ticket df = Inr v"
    if "has_col df ''vendas''" "has_col df ''quantidade''"
    using that litnum [of "''vendas''"] litnum [of "''quantidade''"]
    by (simp add: quot_ticket_def py_truediv_numbers_Inr)
  obtain m5 where r5: "rule_ticket df cs m4 = Inr m5"
    using q5 by (cases "has_col df ''vendas'' \<and> has_col df ''quantidade''")
      (auto simp: rule_ticket_def h)
  show ?thesis
    using r1 r2 r3 r4 r5 by (simp add: calcular_metricas_def cs_def [symmetric])
qed

text \<open>The equations that evaluate the engine on a table written out.\<close>

lemmas metric_eval =
  calcular_metricas_def rule_receita_def rule_despesa_def rule_produtividade_def rule_lucro_def
  rule_ticket_def quot_produtividade_def quot_ticket_def diff_lucro_def sum_ci_def sum_lit_def
  first_label_def getitem_def series_sum_def is_numeric_def is_text_def num_of_def text_of_def
  nunique_def py_sub_def py_truediv_def dict_set_def dict_get_def str_lower_def char_lower_def
  frame_of_def has_col_def column_def total_def
  Receita_Total_def Custo_Operacional_Total_def Produtividade_Media_def Lucro_Liquido_def
  Ticket_Medio_def

text \<open>
  C1. The claim: every token of the vocabulary is matched whatever the case of the label,
  and the rule reads the column under the label as it is written in the table. The rules
  for receita and despesa do so. The rules for produtividade and ticket test the presence
  on the lower-cased labels and then read \<open>df['producao']\<close>, \<open>df['funcionario']\<close>,
  \<open>df['vendas']\<close>, \<open>df['quantidade']\<close> with the lower-case label itself: on a table
  whose label is written \<open>Producao\<close> or \<open>Vendas\<close> the test passes and the read raises
  \<open>KeyError\<close>, where the same table with lower-case labels gives the indicator.
\<close>

theorem mixed_case_columns_raise:
  "calcular_metricas (frame_of [''funcionario'', ''producao'']
       [[Num 1, Num 10], [Num 1, Num 20], [Num 2, Num 30]])
     = Inr [(Produtividade_Media, SNum 30)] \<and>
   calcular_metricas (frame_of [''Funcionario'', ''Producao'']
       [[Num 1, Num 10], [Num 1, Num 20], [Num 2, Num 30]])
     = Inl (KeyError ''producao'') \<and>
   calcular_metricas (frame_of [''vendas'', ''quantidade''] [[Num 90, Num 3]])
     = Inr [(Ticket_Medio, SNum 30)] \<and>
   calcular_metricas (frame_of [''Vendas'', ''quantidade''] [[Num 90, Num 3]])
     = Inl (KeyError ''vendas'') \<and>
   calcular_metricas (frame_of [''receita''] [[Num 90], [Num 3]])
     = Inr [(Receita_Total, SNum 93)] \<and>
   calcular_metricas (frame_of [''RECEITA''] [[Num 90], [Num 3]])
     = Inr [(Receita_Total, SNum 93)]"
  by (simp add: metric_eval)






text \<open>
  The keys of every mapping the engine returns are the indicators whose columns are
  present, taken from the five indicators and in their order of evaluation; on a
  well-typed table the engine does return, and on a table with none of the columns of the
  vocabulary it returns the empty mapping.
\<close>

lemma returned_keys:
  "(well_typed df \<longrightarrow> (\<exists>m'. calcular_metricas df = Inr m')) \<and>
   (calcular_metricas df = Inr m \<longrightarrow> map fst m = filter (precondicao df) indicadores) \<and>
   ((\<forall>t \<in> set [''receita'', ''despesa'', ''funcionario'', ''producao'', ''vendas'', ''quantidade''].
       \<not> has_col df t) \<longrightarrow> calcular_metricas df = Inr [])"
proof (intro conjI impI)
  assume "well_typed df"
  then show "\<exists>m'. calcular_metricas df = Inr m'"
    by (rule calcular_metricas_returns)
next
  assume ret: "calcular_metricas df = Inr m"
  show "map fst m = filter (precondicao df) indicadores"
    by (subst calcular_metricas_shape(1) [OF ret])
      (simp add: precondicao_def indicadores_def keys_neq)
next
  assume "\<forall>t \<in> set [''receita'', ''despesa'', ''funcionario'', ''producao'', ''vendas'', ''quantidade''].
       \<not> has_col df t"
  then show "calcular_metricas df = Inr []"
    by (simp add: has_col_def calcular_metricas_def rule_receita_def rule_despesa_def
        rule_produtividade_def rule_lucro_def rule_ticket_def)
qed

text \<open>
  C6. The claim: for every table the engine returns a mapping whose keys are exactly the
  indicators whose column preconditions are met, in the order of evaluation, and the
  empty mapping when no column of the vocabulary is there. On the table with the labels
  \<open>receita\<close>, \<open>despesa\<close>, \<open>Vendas\<close>, \<open>quantidade\<close> the preconditions of four
  indicators are met, the one of \<open>Ticket Medio\<close> among them, since the test is made on
  the lower-cased labels; the engine then reads \<open>df['vendas']\<close> and raises
  \<open>KeyError\<close>, so it returns no mapping at all. The same table with the label
  \<open>vendas\<close> returns the four keys in their order, and a table with no column of the
  vocabulary returns the empty mapping. The defect is the one of C1.
\<close>

theorem indicator_keys_mixed_case_raises:
  "filter (precondicao (frame_of [''receita'', ''despesa'', ''Vendas'', ''quantidade'']
              [[Num 5, Num 1, Num 8, Num 2]])) indicadores
     = [Receita_Total, Custo_Operacional_Total, Lucro_Liquido, Ticket_Medio] \<and>
   calcular_metricas (frame_of [''receita'', ''despesa'', ''Vendas'', ''quantidade'']
       [[Num 5, Num 1, Num 8, Num 2]])
     = Inl (KeyError ''vendas'') \<and>
   calcular_metricas (frame_of [''receita'', ''despesa'', ''vendas'', ''quantidade'']
       [[Num 5, Num 1, Num 8, Num 2]])
     = Inr [(Receita_Total, SNum 5), (Custo_Operacional_Total, SNum 1),
            (Lucro_Liquido, SNum 4), (Ticket_Medio, SNum 4)] \<and>
   calcular_metricas (frame_of [''nome'', ''cidade''] [[Txt ''Ana'', Txt ''Recife'']]) = Inr []"
proof (intro conjI)
  show "filter (precondicao (frame_of [''receita'', ''despesa'', ''Vendas'', ''quantidade'']
              [[Num 5, Num 1, Num 8, Num 2]])) indicadores
     = [Receita_Total, Custo_Operacional_Total, Lucro_Liquido, Ticket_Medio]"
  proof -
    let ?t = "frame_of [''receita'', ''despesa'', ''Vendas'', ''quantidade'']
                [[Num 5, Num 1, Num 8, Num 2]]"
    have hc: "has_col ?t ''receita''" "has_col ?t ''despesa''" "\<not> has_col ?t ''funcionario''"
      "\<not> has_col ?t ''producao''" "has_col ?t ''vendas''" "has_col ?t ''quantidade''"
      by (simp_all add: has_col_def frame_of_def str_lower_def char_lower_def)
    show ?thesis
      by (simp add: precondicao_def indicadores_def keys_neq hc)
  qed
  show "calcular_metricas (frame_of [''receita'', ''despesa'', ''Vendas'', ''quantidade'']
       [[Num 5, Num 1, Num 8, Num 2]])
     = Inl (KeyError ''vendas'')"
    by (simp add: metric_eval)
  show "calcular_metricas (frame_of [''receita'', ''despesa'', ''vendas'', ''quantidade'']
       [[Num 5, Num 1, Num 8, Num 2]])
     = Inr [(Receita_Total, SNum 5), (Custo_Operacional_Total, SNum 1),
            (Lucro_Liquido, SNum 4), (Ticket_Medio, SNum 4)]"
    by (simp add: metric_eval)
  show "calcular_metricas (frame_of [''nome'', ''cidade''] [[Txt ''Ana'', Txt ''Recife'']]) = Inr []"
    by (simp add: metric_eval)
qed

text \<open>
  C10. For a table with columns named \<open>vendas\<close> and \<open>quantidade\<close>, every mapping the
  engine returns has the entry \<open>Ticket Medio\<close>, whatever the sum of quantidade is: the
  rule has no guard on the denominator. When the sum of quantidade is not zero, the entry
  is the sum of vendas divided by the sum of quantidade; and when moreover the two columns
  hold only numbers and missing values, the division itself raises nothing.
\<close>

theorem ticket_medio_rule:
  assumes "''vendas'' \<in> set (columns df)" and "''quantidade'' \<in> set (columns df)"
  shows "(calcular_metricas df = Inr m \<longrightarrow>
            Ticket_Medio \<in> set (map fst m) \<and>
            (total df ''quantidade'' \<noteq> 0 \<longrightarrow>
               map_of m Ticket_Medio =
                 Some (SNum (total df ''vendas'' / total df ''quantidade'')))) \<and>
         (list_all is_numeric (column df ''vendas'') \<and>
          list_all is_numeric (column df ''quantidade'') \<and> total df ''quantidade'' \<noteq> 0 \<longrightarrow>
            quot_ticket df = Inr (SNum (total df ''vendas'' / total df ''quantidade'')))"
proof (intro conjI impI)
  assume ret: "calcular_metricas df = Inr m"
  have hv: "has_col df ''vendas''" and hq: "has_col df ''quantidade''"
    using assms by (auto intro!: has_col_literal simp: str_lower_def char_lower_def)
  note shape = calcular_metricas_shape [OF ret]
  obtain v where v: "quot_ticket df = Inr v"
    using shape(6) [OF hv hq] by (metis sum.collapse(2))
  then obtain a b where a: "sum_lit df ''vendas'' = Inr a"
    and b: "sum_lit df ''quantidade'' = Inr b" and q: "py_truediv a b = Inr v"
    by (auto simp: quot_ticket_def split: sum.splits)
  obtain x y where xy: "a = SNum x" "b = SNum y"
    "v = (if y = 0 then NonFinite else SNum (x / y))"
    using q sum_lit_finite [OF a] sum_lit_finite [OF b] by (rule py_truediv_numbers)
  have x: "x = total df ''vendas''" and y: "y = total df ''quantidade''"
    using a b xy(1,2) sum_lit_number(2) by simp_all
  have mv: "map_of m Ticket_Medio = Some v"
    using hv hq by (simp add: shape(1) v keys_neq)
  then show "Ticket_Medio \<in> set (map fst m)"
    by (metis map_of_eq_None_iff option.distinct(1) set_map)
  show "map_of m Ticket_Medio = Some (SNum (total df ''vendas'' / total df ''quantidade''))"
    if "total df ''quantidade'' \<noteq> 0"
    using that mv xy(3) by (simp add: x y)
next
  assume "list_all is_numeric (column df ''vendas'') \<and>
          list_all is_numeric (column df ''quantidade'') \<and> total df ''quantidade'' \<noteq> 0"
  then show "quot_ticket df = Inr (SNum (total df ''vendas'' / total df ''quantidade''))"
    using assms
    by (simp add: quot_ticket_def sum_lit_def getitem_def series_sum_def py_truediv_def
        column_def total_def)
qed

theorem ticket_medio_rule_witness:
  "''vendas'' \<in> set (columns (frame_of [''vendas'', ''quantidade''] [[Num 90, Num 2], [Num 30, Num 4]])) \<and>
   ''quantidade'' \<in> set (columns (frame_of [''vendas'', ''quantidade''] [[Num 90, Num 2], [Num 30, Num 4]])) \<and>
   calcular_metricas (frame_of [''vendas'', ''quantidade''] [[Num 90, Num 2], [Num 30, Num 4]])
     = Inr [(Ticket_Medio, SNum 20)] \<and>
   list_all is_numeric (column (frame_of [''vendas'', ''quantidade''] [[Num 90, Num 2], [Num 30, Num 4]]) ''vendas'') \<and>
   list_all is_numeric (column (frame_of [''vendas'', ''quantidade''] [[Num 90, Num 2], [Num 30, Num 4]]) ''quantidade'') \<and>
   total (frame_of [''vendas'', ''quantidade''] [[Num 90, Num 2], [Num 30, Num 4]]) ''vendas'' = 120 \<and>
   total (frame_of [''vendas'', ''quantidade''] [[Num 90, Num 2], [Num 30, Num 4]]) ''quantidade'' = 6 \<and>
   Ticket_Medio \<in> set (map fst [(Ticket_Medio, SNum 20)]) \<and>
   map_of [(Ticket_Medio, SNum 20)] Ticket_Medio = Some (SNum (120 / 6)) \<and>
   quot_ticket (frame_of [''vendas'', ''quantidade''] [[Num 90, Num 2], [Num 30, Num 4]])
     = Inr (SNum (120 / 6))"
proof -
  let ?df = "frame_of [''vendas'', ''quantidade''] [[Num 90, Num 2], [Num 30, Num 4]]"
  have c: "''vendas'' \<in> set (columns ?df)" "''quantidade'' \<in> set (columns ?df)"
    by (simp_all add: frame_of_def)
  have r: "calcular_metricas ?df = Inr [(Ticket_Medio, SNum 20)]"
    by (simp add: metric_eval)
  have nv: "list_all is_numeric (column ?df ''vendas'')"
    and nq: "list_all is_numeric (column ?df ''quantidade'')"
    by (simp_all add: metric_eval)
  have tv: "total ?df ''vendas'' = 120" and tq: "total ?df ''quantidade'' = 6"
    by (simp_all add: metric_eval)
  have tq0: "total ?df ''quantidade'' \<noteq> 0"
    by (simp add: tq)
  note t = ticket_medio_rule [OF c, of "[(Ticket_Medio, SNum 20)]"]
  have k: "Ticket_Medio \<in> set (map fst [(Ticket_Medio, SNum 20)])"
    and v: "map_of [(Ticket_Medio, SNum 20)] Ticket_Medio
              = Some (SNum (total ?df ''vendas'' / total ?df ''quantidade''))"
    and q: "quot_ticket ?df = Inr (SNum (total ?df ''vendas'' / total ?df ''quantidade''))"
    using t r nv nq tq0 by blast+
  show ?thesis
    using c r nv nq tv tq k v [unfolded tv tq] q [unfolded tv tq] by blast
qed

section \<open>Properties of the loader\<close>

lemma load_file_Inl: "load_file env d a = Inl e \<longleftrightarrow> read_file env d a = Inl e"
  by (simp add: load_file_def split: sum.splits)

text \<open>The loop appends: what it collects and what it prints depend on the files alone.\<close>

lemma load_loop_acc:
  "load_loop env d as dfs out = (dfs @ loaded env d as, out @ avisos env d as)"
proof (induction as arbitrary: dfs out)
  case Nil
  show ?case by (simp add: loaded_def avisos_def)
next
  case (Cons a as)
  show ?case
  proof (cases "load_file env d a")
    case (Inl e)
    then have "read_file env d a = Inl e" by (simp add: load_file_Inl)
    with Inl Cons show ?thesis by (simp add: loaded_def avisos_def)
  next
    case (Inr f)
    then obtain g where "read_file env d a = Inr g"
      by (auto simp: load_file_def split: sum.splits)
    with Inr Cons show ?thesis by (simp add: loaded_def avisos_def)
  qed
qed

lemma loaded_empty_iff:
  "loaded env d as = [] \<longleftrightarrow> (\<forall>a \<in> set as. isl (read_file env d a))"
  by (induction as) (auto simp: loaded_def load_file_def split: sum.splits)

lemma rows_setitem_map:
  "rows (setitem f name (map g (rows f))) = map (\<lambda>r. r(name := g r)) (rows f)"
  by (simp add: setitem_def zip_map2 zip_same_conv_map o_def)

lemma rows_setitem_scalar: "rows (setitem_scalar f name v) = map (\<lambda>r. r(name := v)) (rows f)"
  using rows_setitem_map [of f name "\<lambda>r. v"]
  by (simp add: setitem_scalar_def map_replicate_const)

lemma columns_setitem_scalar:
  "set (columns (setitem_scalar f name v)) = insert name (set (columns f))"
  by (auto simp: setitem_scalar_def setitem_def)

lemma reindex_tagged:
  "reindex (columns (setitem_scalar f ''Origem_Arquivo'' (Txt a))) (r(''Origem_Arquivo'' := Txt a))
     = tag_row a (columns f) r"
  by (rule ext) (simp add: reindex_def tag_row_def columns_setitem_scalar)

lemma rows_loaded:
  "concat (map (\<lambda>df. map (reindex (columns df)) (rows df)) (loaded env d as))
     = concat (map (contribution env d) as)"
proof (induction as)
  case Nil
  show ?case by (simp add: loaded_def)
next
  case (Cons a as)
  have "concat (map (\<lambda>df. map (reindex (columns df)) (rows df))
          (case load_file env d a of Inl e \<Rightarrow> [] | Inr f \<Rightarrow> [f])) = contribution env d a"
    by (simp add: load_file_def contribution_def rows_setitem_scalar reindex_tagged o_def
        split: sum.splits)
  with Cons show ?case by (simp add: loaded_def)
qed

lemma loaded_tagged:
  "f \<in> set (loaded env d as) \<Longrightarrow> ''Origem_Arquivo'' \<in> set (columns f)"
  by (induction as)
    (auto simp: loaded_def load_file_def columns_setitem_scalar split: sum.splits)

lemma set_foldl_union:
  "set (foldl (\<lambda>acc c. if c \<in> set acc then acc else acc @ [c]) acc cs) = set acc \<union> set cs"
  by (induction cs arbitrary: acc) auto

lemma set_union_labels: "set (union_labels cs) = set cs"
  by (simp add: union_labels_def set_foldl_union)

lemma origins_of_contribution:
  "map (\<lambda>r. r ''Origem_Arquivo'') (contribution env d a) = origins env d a"
  by (simp add: contribution_def origins_def tag_row_def o_def map_replicate_const
      split: sum.splits)

text \<open>What a successful load returns, in terms of the listing and of the readers.\<close>

lemma carregar_dados_Inr:
  assumes "listdir env d = Some names" and "snd (carregar_dados env d) = Inr df"
  shows "loaded env d (filter recognized names) \<noteq> []"
    and "columns df = union_labels (concat (map columns (loaded env d (filter recognized names))))"
    and "rows df = concat (map (contribution env d) (filter recognized names))"
    and "fst (carregar_dados env d) = avisos env d (filter recognized names)"
proof -
  let ?as = "filter recognized names"
  from assms have ne: "?as \<noteq> []" and l: "loaded env d ?as \<noteq> []"
    and c: "pd_concat (loaded env d ?as) = Inr df"
    by (auto simp: carregar_dados_def Let_def load_loop_acc split: if_splits)
  show "loaded env d ?as \<noteq> []" by (rule l)
  show "columns df = union_labels (concat (map columns (loaded env d ?as)))"
    using c by (auto simp: pd_concat_def split: if_splits)
  have "rows df = concat (map (\<lambda>df. map (reindex (columns df)) (rows df)) (loaded env d ?as))"
    using c by (auto simp: pd_concat_def split: if_splits)
  then show "rows df = concat (map (contribution env d) ?as)"
    by (simp add: rows_loaded)
  show "fst (carregar_dados env d) = avisos env d ?as"
    using assms(1) ne l by (simp add: carregar_dados_def Let_def load_loop_acc)
qed

lemma carregar_dados_some:
  assumes "listdir env d = Some names"
    and "\<exists>a \<in> set (filter recognized names). \<not> isl (read_file env d a)"
  shows "\<exists>df. carregar_dados env d = (avisos env d (filter recognized names), Inr df)"
proof -
  let ?as = "filter recognized names"
  from assms(2) obtain a where "a \<in> set ?as" by blast
  then have ne: "?as \<noteq> []" by (metis empty_iff list.set(1))
  have l: "loaded env d ?as \<noteq> []"
    using assms(2) by (simp add: loaded_empty_iff)
  then show ?thesis
    using assms(1) ne by (simp add: carregar_dados_def Let_def load_loop_acc pd_concat_def)
qed

text \<open>The equations that evaluate the loader on the concrete directories.\<close>

lemmas loader_eval =
  carregar_dados_def load_file_def read_file_def path_join_def endswith_def
  recognized_def scenario_env_def setitem_scalar_def setitem_def pd_concat_def union_labels_def
  reindex_def frame_of_def aviso_def

lemma scenario_df_eq: "snd (carregar_dados scenario_env ''relatorios'') = Inr scenario_df"
proof -
  have "\<not> isl (snd (carregar_dados scenario_env ''relatorios''))"
    by (simp add: loader_eval)
  then show ?thesis by (simp add: scenario_df_def)
qed

lemma misto_df_eq: "snd (carregar_dados scenario_env ''misto'') = Inr misto_df"
proof -
  have "\<not> isl (snd (carregar_dados scenario_env ''misto''))"
    by (simp add: loader_eval)
  then show ?thesis by (simp add: misto_df_def)
qed

lemma datas_df_eq: "snd (carregar_dados scenario_env ''datas'') = Inr datas_df"
proof -
  have "\<not> isl (snd (carregar_dados scenario_env ''datas''))"
    by (simp add: loader_eval)
  then show ?thesis by (simp add: datas_df_def)
qed

text \<open>
  C3. A directory with no file ending in \<open>.csv\<close> or \<open>.xlsx\<close> makes the load fail with
  the error for no input file (\<open>FileNotFoundError\<close> with its message). A directory with
  such files, all of which fail to parse, makes it fail with the error for no loadable
  data (\<open>ValueError\<close> with its message), one warning printed per file. When at least one
  file parses, the load succeeds: the files that failed give a warning each and no row,
  the others give all their rows.
\<close>

theorem load_failures:
  assumes "listdir env d = Some names"
  shows "(filter recognized names = [] \<longrightarrow>
            carregar_dados env d = ([], Inl (FileNotFoundError msg_no_files))) \<and>
         (filter recognized names \<noteq> [] \<and>
          (\<forall>a \<in> set (filter recognized names). isl (read_file env d a)) \<longrightarrow>
            carregar_dados env d =
              (avisos env d (filter recognized names), Inl (ValueError msg_no_data))) \<and>
         ((\<exists>a \<in> set (filter recognized names). \<not> isl (read_file env d a)) \<longrightarrow>
            (\<exists>df. carregar_dados env d = (avisos env d (filter recognized names), Inr df) \<and>
                  rows df = concat (map (contribution env d) (filter recognized names))))"
proof (intro conjI impI)
  assume "filter recognized names = []"
  then show "carregar_dados env d = ([], Inl (FileNotFoundError msg_no_files))"
    using assms by (simp add: carregar_dados_def)
next
  assume h: "filter recognized names \<noteq> [] \<and>
          (\<forall>a \<in> set (filter recognized names). isl (read_file env d a))"
  then have "loaded env d (filter recognized names) = []"
    by (simp add: loaded_empty_iff)
  then show "carregar_dados env d =
      (avisos env d (filter recognized names), Inl (ValueError msg_no_data))"
    using assms h by (simp add: carregar_dados_def Let_def load_loop_acc)
next
  assume "\<exists>a \<in> set (filter recognized names). \<not> isl (read_file env d a)"
  then obtain df where df: "carregar_dados env d = (avisos env d (filter recognized names), Inr df)"
    using carregar_dados_some [OF assms] by blast
  then have "snd (carregar_dados env d) = Inr df" by simp
  from carregar_dados_Inr(3) [OF assms this] df
  show "\<exists>df. carregar_dados env d = (avisos env d (filter recognized names), Inr df) \<and>
            rows df = concat (map (contribution env d) (filter recognized names))"
    by blast
qed

theorem load_failures_witness:
  "listdir scenario_env ''vazio'' = Some [''notas.txt''] \<and>
   filter recognized [''notas.txt''] = [] \<and>
   carregar_dados scenario_env ''vazio'' = ([], Inl (FileNotFoundError msg_no_files)) \<and>
   listdir scenario_env ''quebrado'' = Some [''c.xlsx''] \<and>
   filter recognized [''c.xlsx''] \<noteq> [] \<and>
   filter recognized [''c.xlsx''] = [''c.xlsx''] \<and>
   isl (read_file scenario_env ''quebrado'' ''c.xlsx'') \<and>
   carregar_dados scenario_env ''quebrado'' =
     ([''[AVISO] Erro ao carregar c.xlsx: File is not a zip file''],
      Inl (ValueError msg_no_data)) \<and>
   listdir scenario_env ''misto'' = Some [''a.csv'', ''notas.txt'', ''c.xlsx'', ''b.csv''] \<and>
   filter recognized [''a.csv'', ''notas.txt'', ''c.xlsx'', ''b.csv'']
     = [''a.csv'', ''c.xlsx'', ''b.csv''] \<and>
   \<not> isl (read_file scenario_env ''misto'' ''a.csv'') \<and>
   isl (read_file scenario_env ''misto'' ''c.xlsx'') \<and>
   (\<exists>df. carregar_dados scenario_env ''misto'' =
           ([''[AVISO] Erro ao carregar c.xlsx: File is not a zip file''], Inr df) \<and>
         rows df = concat (map (contribution scenario_env ''misto'')
                     (filter recognized [''a.csv'', ''notas.txt'', ''c.xlsx'', ''b.csv''])))"
proof -
  have l1: "listdir scenario_env ''vazio'' = Some [''notas.txt'']"
    and l2: "listdir scenario_env ''quebrado'' = Some [''c.xlsx'']"
    and l3: "listdir scenario_env ''misto'' = Some [''a.csv'', ''notas.txt'', ''c.xlsx'', ''b.csv'']"
    by (simp_all add: scenario_env_def)
  have f1: "filter recognized [''notas.txt''] = []"
    and f2: "filter recognized [''c.xlsx''] = [''c.xlsx'']"
    and f3: "filter recognized [''a.csv'', ''notas.txt'', ''c.xlsx'', ''b.csv'']
               = [''a.csv'', ''c.xlsx'', ''b.csv'']"
    by (simp_all add: recognized_def endswith_def)
  have b2: "\<forall>a \<in> set (filter recognized [''c.xlsx'']). isl (read_file scenario_env ''quebrado'' a)"
    unfolding f2 by (simp add: read_file_def scenario_env_def endswith_def)
  have g3: "\<exists>a \<in> set (filter recognized [''a.csv'', ''notas.txt'', ''c.xlsx'', ''b.csv'']).
      \<not> isl (read_file scenario_env ''misto'' a)"
    unfolding f3 by (simp add: read_file_def scenario_env_def endswith_def path_join_def)
  have a2: "avisos scenario_env ''quebrado'' (filter recognized [''c.xlsx''])
      = [''[AVISO] Erro ao carregar c.xlsx: File is not a zip file'']"
    unfolding f2 by (simp add: avisos_def aviso_def read_file_def scenario_env_def endswith_def)
  have a3: "avisos scenario_env ''misto'' (filter recognized [''a.csv'', ''notas.txt'', ''c.xlsx'', ''b.csv''])
      = [''[AVISO] Erro ao carregar c.xlsx: File is not a zip file'']"
    unfolding f3
    by (simp add: avisos_def aviso_def read_file_def scenario_env_def endswith_def path_join_def)
  have n2: "filter recognized [''c.xlsx''] \<noteq> []"
    unfolding f2 by simp
  note t1 = load_failures [OF l1]
  note t2 = load_failures [OF l2]
  note t3 = load_failures [OF l3]
  have c1: "carregar_dados scenario_env ''vazio'' = ([], Inl (FileNotFoundError msg_no_files))"
    using t1 f1 by blast
  have c2: "carregar_dados scenario_env ''quebrado'' =
     ([''[AVISO] Erro ao carregar c.xlsx: File is not a zip file''],
      Inl (ValueError msg_no_data))"
    using t2 n2 b2 unfolding a2 by blast
  have c3: "\<exists>df. carregar_dados scenario_env ''misto'' =
           ([''[AVISO] Erro ao carregar c.xlsx: File is not a zip file''], Inr df) \<and>
         rows df = concat (map (contribution scenario_env ''misto'')
                     (filter recognized [''a.csv'', ''notas.txt'', ''c.xlsx'', ''b.csv'']))"
    using t3 g3 unfolding a3 by blast
  have i2: "isl (read_file scenario_env ''quebrado'' ''c.xlsx'')"
    using b2 unfolding f2 by simp
  have i3: "\<not> isl (read_file scenario_env ''misto'' ''a.csv'')"
    "isl (read_file scenario_env ''misto'' ''c.xlsx'')"
    by (simp_all add: read_file_def scenario_env_def endswith_def path_join_def)
  show ?thesis
    using l1 f1 c1 l2 n2 f2 i2 c2 l3 f3 i3 c3 by blast
qed

text \<open>
  C4. The sums count a missing value as 0. In the scenario of two CSV files, one with the
  columns receita and despesa and the rows 100, 40 and 200, 60, the other with the column
  receita and the row 50, the consolidated table has the missing value under despesa in
  the row of the second file, and the engine gives \<open>Receita Total\<close> 350,
  \<open>Custo Operacional Total\<close> 100 and \<open>Lucro Liquido\<close> 250. In general the sum of a
  column of numbers and missing values is the sum of its numbers.
\<close>

theorem two_file_scenario_totals:
  "(case snd (carregar_dados scenario_env ''relatorios'') of
      Inl e \<Rightarrow> Inl e
    | Inr df \<Rightarrow> calcular_metricas df)
     = Inr [(Receita_Total, SNum 350), (Custo_Operacional_Total, SNum 100),
            (Lucro_Liquido, SNum 250)] \<and>
   column scenario_df ''receita'' = [Num 100, Num 200, Num 50] \<and>
   column scenario_df ''despesa'' = [Num 40, Num 60, Null] \<and>
   series_sum (map (\<lambda>v. case v of None \<Rightarrow> Null | Some x \<Rightarrow> Num x) vs)
     = Inr (SNum (sum_list (map (\<lambda>v. case v of None \<Rightarrow> 0 | Some x \<Rightarrow> x) vs)))"
proof (intro conjI)
  have "calcular_metricas scenario_df
      = Inr [(Receita_Total, SNum 350), (Custo_Operacional_Total, SNum 100),
             (Lucro_Liquido, SNum 250)]"
    by (simp add: scenario_df_def loader_eval metric_eval)
  then show "(case snd (carregar_dados scenario_env ''relatorios'') of
      Inl e \<Rightarrow> Inl e
    | Inr df \<Rightarrow> calcular_metricas df)
     = Inr [(Receita_Total, SNum 350), (Custo_Operacional_Total, SNum 100),
            (Lucro_Liquido, SNum 250)]"
    by (simp add: scenario_df_eq)
  show "column scenario_df ''receita'' = [Num 100, Num 200, Num 50]"
    by (simp add: scenario_df_def column_def loader_eval)
  show "column scenario_df ''despesa'' = [Num 40, Num 60, Null]"
    by (simp add: scenario_df_def column_def loader_eval)
  have n: "list_all is_numeric (map (\<lambda>v. case v of None \<Rightarrow> Null | Some x \<Rightarrow> Num x) vs)"
    by (induction vs) (simp_all add: is_numeric_def split: option.splits)
  have s: "sum_list (map num_of (map (\<lambda>v. case v of None \<Rightarrow> Null | Some x \<Rightarrow> Num x) vs))
      = sum_list (map (\<lambda>v. case v of None \<Rightarrow> 0 | Some x \<Rightarrow> x) vs)"
    by (induction vs) (simp_all add: num_of_def split: option.splits)
  show "series_sum (map (\<lambda>v. case v of None \<Rightarrow> Null | Some x \<Rightarrow> Num x) vs)
     = Inr (SNum (sum_list (map (\<lambda>v. case v of None \<Rightarrow> 0 | Some x \<Rightarrow> x) vs)))"
    using n s by (simp add: series_sum_def)
qed

text \<open>
  C7. When the load succeeds, the rows of the consolidated table are the rows of the
  files in the order of the listing, file after file, each file giving its rows in their
  order, tagged and completed with missing values; a file that failed to parse gives
  none. No row is dropped or merged: the table has as many rows as the parsed files have
  together.
\<close>

theorem row_order_preserved:
  assumes "listdir env d = Some names" and "snd (carregar_dados env d) = Inr df"
  shows "rows df = concat (map (contribution env d) (filter recognized names)) \<and>
         length (rows df) =
           sum_list (map (\<lambda>a. case read_file env d a of Inl e \<Rightarrow> 0 | Inr f \<Rightarrow> length (rows f))
                       (filter recognized names))"
proof -
  have r: "rows df = concat (map (contribution env d) (filter recognized names))"
    using assms by (rule carregar_dados_Inr(3))
  have "\<And>a. length (contribution env d a)
      = (case read_file env d a of Inl e \<Rightarrow> 0 | Inr f \<Rightarrow> length (rows f))"
    by (simp add: contribution_def split: sum.splits)
  then have "length (rows df) =
      sum_list (map (\<lambda>a. case read_file env d a of Inl e \<Rightarrow> 0 | Inr f \<Rightarrow> length (rows f))
                  (filter recognized names))"
    by (simp add: r length_concat o_def)
  with r show ?thesis by blast
qed

theorem row_order_preserved_witness:
  "listdir scenario_env ''misto'' = Some [''a.csv'', ''notas.txt'', ''c.xlsx'', ''b.csv''] \<and>
   snd (carregar_dados scenario_env ''misto'') = Inr misto_df \<and>
   rows misto_df = concat (map (contribution scenario_env ''misto'')
                     (filter recognized [''a.csv'', ''notas.txt'', ''c.xlsx'', ''b.csv''])) \<and>
   length (rows misto_df) =
     sum_list (map (\<lambda>a. case read_file scenario_env ''misto'' a of
                           Inl e \<Rightarrow> 0 | Inr f \<Rightarrow> length (rows f))
                 (filter recognized [''a.csv'', ''notas.txt'', ''c.xlsx'', ''b.csv''])) \<and>
   map (\<lambda>r. map r [''receita'', ''despesa'']) (rows misto_df)
     = [[Num 100, Num 40], [Num 200, Num 60], [Num 50, Null]]"
proof -
  have l: "listdir scenario_env ''misto'' = Some [''a.csv'', ''notas.txt'', ''c.xlsx'', ''b.csv'']"
    by (simp add: scenario_env_def)
  have c: "map (\<lambda>r. map r [''receita'', ''despesa'']) (rows misto_df)
     = [[Num 100, Num 40], [Num 200, Num 60], [Num 50, Null]]"
    by (simp add: misto_df_def loader_eval)
  show ?thesis
    using row_order_preserved [OF l misto_df_eq] l misto_df_eq c by blast
qed

text \<open>
  C8. When the load succeeds, the consolidated table has the column
  \<open>Origem_Arquivo\<close>, and its values are, file after file in the order of the listing,
  the name of the file as the listing gives it (not the joined path), once for each row
  of that file: every row carries the name of the file it was parsed from.
\<close>

theorem origem_arquivo_is_file_name:
  assumes "listdir env d = Some names" and "snd (carregar_dados env d) = Inr df"
  shows "''Origem_Arquivo'' \<in> set (columns df) \<and>
         column df ''Origem_Arquivo'' = concat (map (origins env d) (filter recognized names))"
proof -
  note facts = carregar_dados_Inr [OF assms]
  from facts(1) obtain f where f: "f \<in> set (loaded env d (filter recognized names))"
    by (metis last_in_set)
  then have "''Origem_Arquivo'' \<in> set (columns f)"
    by (rule loaded_tagged)
  with f have "''Origem_Arquivo'' \<in> set (columns df)"
    by (auto simp: facts(2) set_union_labels)
  moreover have "column df ''Origem_Arquivo''
      = concat (map (origins env d) (filter recognized names))"
    by (simp add: column_def facts(3) map_concat o_def origins_of_contribution)
  ultimately show ?thesis by blast
qed

theorem origem_arquivo_is_file_name_witness:
  "listdir scenario_env ''relatorios'' = Some [''a.csv'', ''b.csv''] \<and>
   snd (carregar_dados scenario_env ''relatorios'') = Inr scenario_df \<and>
   ''Origem_Arquivo'' \<in> set (columns scenario_df) \<and>
   column scenario_df ''Origem_Arquivo''
     = concat (map (origins scenario_env ''relatorios'') (filter recognized [''a.csv'', ''b.csv''])) \<and>
   column scenario_df ''Origem_Arquivo'' = [Txt ''a.csv'', Txt ''a.csv'', Txt ''b.csv'']"
proof -
  have l: "listdir scenario_env ''relatorios'' = Some [''a.csv'', ''b.csv'']"
    by (simp add: scenario_env_def)
  have c: "column scenario_df ''Origem_Arquivo'' = [Txt ''a.csv'', Txt ''a.csv'', Txt ''b.csv'']"
    by (simp add: scenario_df_def column_def loader_eval)
  show ?thesis
    using origem_arquivo_is_file_name [OF l scenario_df_eq] l scenario_df_eq c by blast
qed

section \<open>Properties of the main sequence\<close>

lemma path_join_literal:
  "take 1 b \<noteq> ''/'' \<Longrightarrow> path_join a b = (if a = [] \<or> endswith a ''/'' then a else a @ ''/'') @ b"
  by (simp add: path_join_def)

lemma heap_write_file: "heap (write_file p a w) = heap w"
  by (simp add: write_file_def)

text \<open>
  What the chart exporter leaves at the address it was given: the caller's table with the
  column \<open>data\<close> overwritten. The table it builds for the charts lives at a new address.
\<close>

lemma gerar_graficos_heap:
  assumes "''data'' \<in> set (columns (heap w df))" and "df < next_ref w"
  shows "heap (gerar_graficos env df pasta w) df =
           setitem (heap w df) ''data'' (map (\<lambda>r. to_datetime env (r ''data'')) (rows (heap w df)))"
  using assms
  by (simp add: gerar_graficos_def Let_def alloc_def split_def heap_write_file)

lemma coerced_frame:
  assumes "''data'' \<in> set (columns f)"
    and "f' = setitem f ''data'' (map (\<lambda>r. to_datetime env (r ''data'')) (rows f))"
  shows "columns f' = columns f"
    and "column f' ''data'' = map (to_datetime env) (column f ''data'')"
    and "c \<noteq> ''data'' \<Longrightarrow> column f' c = column f c"
proof -
  show "columns f' = columns f"
    using assms by (simp add: setitem_def)
  show "column f' ''data'' = map (to_datetime env) (column f ''data'')"
    by (simp add: assms(2) column_def rows_setitem_map o_def)
  show "c \<noteq> ''data'' \<Longrightarrow> column f' c = column f c"
    by (simp add: assms(2) column_def rows_setitem_map o_def)
qed

text \<open>
  C9. When the loader returns a table with a column named \<open>data\<close> and the engine returns
  its mapping, the workbook that \<open>main\<close> writes holds, in its sheet of consolidated data,
  the loaded table with the same labels, the column \<open>data\<close> replaced value by value by
  the coerced date (the missing value where the parser refuses) and every other column as
  it was loaded: the chart exporter has written the caller's table before the document
  exporter read it, and its month column went to its own copy.
\<close>

theorem chart_export_mutates_data:
  assumes load: "snd (carregar_dados env input) = Inr df0"
    and met: "calcular_metricas df0 = Inr metricas"
    and data: "''data'' \<in> set (columns df0)"
  shows "\<exists>df1. files (snd (main env input output w0))
                 (path_join output ''relatorio_administrativo.xlsx'')
            = Some (Xlsx [(''Dados Consolidados'', Table df1),
                          (''Indicadores'', Items [Metrica, ''Valor''] metricas)]) \<and>
          columns df1 = columns df0 \<and>
          column df1 ''data'' = map (to_datetime env) (column df0 ''data'') \<and>
          (\<forall>c. c \<noteq> ''data'' \<longrightarrow> column df1 c = column df0 c)"
proof -
  define df where "df = next_ref w0"
  define w1 where "w1 = snd (alloc df0 w0)"
  define w2 where "w2 = gerar_graficos env df output w1"
  define w3 where "w3 = exportar_excel metricas df output w2"
  define df1 where "df1 = heap w2 df"
  have a: "alloc df0 w0 = (df, w1)"
    by (simp add: df_def w1_def alloc_def)
  have h1: "heap w1 df = df0" and n1: "df < next_ref w1"
    by (simp_all add: w1_def df_def alloc_def)
  have d1: "df1 = setitem df0 ''data'' (map (\<lambda>r. to_datetime env (r ''data'')) (rows df0))"
    using gerar_graficos_heap [of w1 df env "output"] data h1 n1 by (simp add: df1_def w2_def)
  have x3: "files w3 (path_join output ''relatorio_administrativo.xlsx'')
      = Some (Xlsx [(''Dados Consolidados'', Table df1),
                    (''Indicadores'', Items [Metrica, ''Valor''] metricas)])"
    by (simp add: w3_def exportar_excel_def write_file_def df1_def)
  have ne: "path_join output ''relatorio_administrativo.pdf''
      \<noteq> path_join output ''relatorio_administrativo.xlsx''"
    by (simp add: path_join_literal)
  have "files (snd (main env input output w0)) (path_join output ''relatorio_administrativo.xlsx'')
      = files w3 (path_join output ''relatorio_administrativo.xlsx'')"
    using ne
    by (simp add: main_def load a h1 met Let_def w2_def [symmetric] w3_def [symmetric]
        exportar_pdf_def write_file_def split: sum.splits)
  with x3 coerced_frame [OF data d1] show ?thesis
    by auto
qed

theorem chart_export_mutates_data_witness:
  "snd (carregar_dados scenario_env ''datas'') = Inr datas_df \<and>
   calcular_metricas datas_df = Inr [(Receita_Total, SNum 300)] \<and>
   ''data'' \<in> set (columns datas_df) \<and>
   column datas_df ''data'' = [Txt ''2024-01-15'', Txt ''ontem''] \<and>
   map (to_datetime scenario_env) (column datas_df ''data'')
     = [Stamp 1705276800000000000, Null] \<and>
   ''receita'' \<noteq> ''data'' \<and>
   (\<exists>df1. files (snd (main scenario_env ''datas'' ''saida'' empty_world))
                 (path_join ''saida'' ''relatorio_administrativo.xlsx'')
            = Some (Xlsx [(''Dados Consolidados'', Table df1),
                          (''Indicadores'', Items [Metrica, ''Valor'']
                             [(Receita_Total, SNum 300)])]) \<and>
          columns df1 = columns datas_df \<and>
          column df1 ''data'' = map (to_datetime scenario_env) (column datas_df ''data'') \<and>
          column df1 ''receita'' = column datas_df ''receita'')"
proof -
  have m: "calcular_metricas datas_df = Inr [(Receita_Total, SNum 300)]"
    by (simp add: datas_df_def loader_eval metric_eval)
  have d: "''data'' \<in> set (columns datas_df)"
    by (simp add: datas_df_def loader_eval)
  have c: "column datas_df ''data'' = [Txt ''2024-01-15'', Txt ''ontem'']"
    by (simp add: datas_df_def column_def loader_eval)
  have t: "map (to_datetime scenario_env) (column datas_df ''data'')
     = [Stamp 1705276800000000000, Null]"
    unfolding c by (simp add: to_datetime_def scenario_env_def)
  have n: "''receita'' \<noteq> ''data''"
    by simp
  from chart_export_mutates_data [OF datas_df_eq m d, of "''saida''" empty_world]
  obtain df1 where p:
    "files (snd (main scenario_env ''datas'' ''saida'' empty_world))
         (path_join ''saida'' ''relatorio_administrativo.xlsx'')
       = Some (Xlsx [(''Dados Consolidados'', Table df1),
                     (''Indicadores'', Items [Metrica, ''Valor''] [(Receita_Total, SNum 300)])]) \<and>
     columns df1 = columns datas_df \<and>
     column df1 ''data'' = map (to_datetime scenario_env) (column datas_df ''data'') \<and>
     (\<forall>c. c \<noteq> ''data'' \<longrightarrow> column df1 c = column datas_df c)"
    ..
  note p1 = p [THEN conjunct1]
  note p2 = p [THEN conjunct2, THEN conjunct1]
  note p3 = p [THEN conjunct2, THEN conjunct2, THEN conjunct1]
  note p4 = p [THEN conjunct2, THEN conjunct2, THEN conjunct2, THEN spec, THEN mp, OF n]
  have x: "\<exists>df1. files (snd (main scenario_env ''datas'' ''saida'' empty_world))
                 (path_join ''saida'' ''relatorio_administrativo.xlsx'')
            = Some (Xlsx [(''Dados Consolidados'', Table df1),
                          (''Indicadores'', Items [Metrica, ''Valor'']
                             [(Receita_Total, SNum 300)])]) \<and>
          columns df1 = columns datas_df \<and>
          column df1 ''data'' = map (to_datetime scenario_env) (column datas_df ''data'') \<and>
          column df1 ''receita'' = column datas_df ''receita''"
    by (rule exI [of _ df1]) (intro conjI p1 p2 p3 p4)
  show ?thesis
    by (intro conjI datas_df_eq m d c t n x)
qed

end
